theory Spec2Isabelle
  imports Main "HOL-Library.Multiset"
begin

section \<open>The live-feed views of the trading simulator front end\<close>

text \<open>
  The front end has three React components that each own one WebSocket:
  \<^item> \<^verbatim>\<open>CoinMarketTable\<close> (src/frontend/src/CoinMarketTable.tsx, lines 29-277), the
    paginated ticker table;
  \<^item> \<^verbatim>\<open>CurrencyDetailPage\<close> as src/frontend/src/CurrencyDetailPage.tsx has it
    (lines 34-243): every decoded batch is stored as received;
  \<^item> \<^verbatim>\<open>CurrencyDetailPage\<close> as the second component of
    src/frontend/src/CoinMarketTable.tsx has it (lines 315-570): a batch is sorted by
    \<^verbatim>\<open>event_time\<close> and extended with derived fields before it is stored.

  A component is modelled by a record of its React state, its refs, and the part of the
  browser it talks to (the WebSocket objects it has constructed, the pending timeouts,
  the document's visibility and the registered listener). Every callback of the source
  is a function from state to state. The browser is single-threaded, so callbacks run
  one after the other and a run of the component is a list of events.
  Calls of \<^verbatim>\<open>console.log\<close>, \<^verbatim>\<open>console.warn\<close> and \<^verbatim>\<open>console.error\<close> change nothing the
  component reads and are left out.
\<close>

subsection \<open>The browser: sockets, timeouts, visibility\<close>

datatype readyState = CONNECTING | OPEN | CLOSING | CLOSED

datatype visibility = Visible | Hidden

text \<open>The one message the client sends: \<^verbatim>\<open>JSON.stringify({page: p, per_page: n})\<close>.\<close>

datatype outbound = PageRequest int int

text \<open>
  A WebSocket object: the URL it was constructed with, its \<^verbatim>\<open>readyState\<close>, and the
  messages handed to \<^verbatim>\<open>send\<close> while it was open, oldest first. A socket is named by its
  position in the list of sockets constructed so far.
\<close>

record socket =
  url :: string
  readyState :: readyState
  sent :: "outbound list"

text \<open>
  The hooks and refs all three components declare alike (CoinMarketTable.tsx:36-40,
  321-325; CurrencyDetailPage.tsx:40-44), followed by the browser's side:
  \<open>timers\<close> holds the pending timeouts as (id, delay in ms), \<open>nextTimeoutId\<close> is the id
  the next \<^verbatim>\<open>setTimeout\<close> returns, \<open>listening\<close> says whether the component's
  \<^verbatim>\<open>visibilitychange\<close> listener is registered.
\<close>

record component =
  isConnected :: bool
  error :: "string option"
  wsRef :: "nat option"
  reconnectTimeoutRef :: "nat option"
  isUnmounting :: bool
  sockets :: "socket list"
  timers :: "(nat \<times> nat) list"
  nextTimeoutId :: nat
  visibilityState :: visibility
  listening :: bool

text \<open>\<^verbatim>\<open>wsRef.current?.readyState\<close>: undefined when the ref is null.\<close>

definition ws_readyState :: "'a component_scheme \<Rightarrow> readyState option" where
  "ws_readyState s =
     (case wsRef s of
        None \<Rightarrow> None
      | Some c \<Rightarrow> if c < length (sockets s) then Some (readyState (sockets s ! c)) else None)"

definition set_readyState :: "nat \<Rightarrow> readyState \<Rightarrow> 'a component_scheme \<Rightarrow> 'a component_scheme" where
  "set_readyState c r s =
     (if c < length (sockets s)
      then s\<lparr>sockets := (sockets s)[c := (sockets s ! c)\<lparr>readyState := r\<rparr>]\<rparr>
      else s)"

text \<open>
  \<^verbatim>\<open>ws.close()\<close>: a connecting or open socket starts closing; on a closing or closed
  socket the call does nothing. The close event comes later, from the browser.
\<close>

definition ws_close :: "nat \<Rightarrow> 'a component_scheme \<Rightarrow> 'a component_scheme" where
  "ws_close c s =
     (if c < length (sockets s) \<and>
         (readyState (sockets s ! c) = CONNECTING \<or> readyState (sockets s ! c) = OPEN)
      then set_readyState c CLOSING s
      else s)"

text \<open>
  \<^verbatim>\<open>ws.send(m)\<close>: an open socket transmits \<open>m\<close>. A connecting socket throws and a
  closing or closed one drops the data; in both cases nothing is transmitted, and in
  the source no statement follows a \<^verbatim>\<open>send\<close> in its callback.
\<close>

definition ws_send :: "nat \<Rightarrow> outbound \<Rightarrow> 'a component_scheme \<Rightarrow> 'a component_scheme" where
  "ws_send c m s =
     (if c < length (sockets s) \<and> readyState (sockets s ! c) = OPEN
      then s\<lparr>sockets := (sockets s)[c := (sockets s ! c)\<lparr>sent := sent (sockets s ! c) @ [m]\<rparr>]\<rparr>
      else s)"

text \<open>\<^verbatim>\<open>window.setTimeout(f, delay)\<close> returns a fresh id and leaves every pending timeout alone.\<close>

definition setTimeout :: "nat \<Rightarrow> 'a component_scheme \<Rightarrow> nat \<times> 'a component_scheme" where
  "setTimeout delay s =
     (nextTimeoutId s,
      s\<lparr>timers := timers s @ [(nextTimeoutId s, delay)], nextTimeoutId := Suc (nextTimeoutId s)\<rparr>)"

definition clearTimeout :: "nat \<Rightarrow> 'a component_scheme \<Rightarrow> 'a component_scheme" where
  "clearTimeout t s = s\<lparr>timers := filter (\<lambda>p. fst p \<noteq> t) (timers s)\<rparr>"

definition pending :: "nat \<Rightarrow> 'a component_scheme \<Rightarrow> bool" where
  "pending t s = (t \<in> fst ` set (timers s))"

subsection \<open>The callbacks the three components share\<close>

text \<open>
  \<^verbatim>\<open>connectWebSocket\<close> (CoinMarketTable.tsx:46-120 and 330-425,
  CurrencyDetailPage.tsx:49-102). The three copies differ in the URL and in the text the
  \<^verbatim>\<open>catch\<close> branch shows, which are the parameters \<open>endpoint\<close> and \<open>failure\<close>. The
  constructor throws on an unusable URL or when the page may not open the socket;
  \<open>constructed\<close> says whether this call of the constructor returned. The callbacks the
  source attaches to the new socket are the functions below; the browser's events
  call them.
\<close>

definition connectWebSocket ::
  "string \<Rightarrow> string \<Rightarrow> bool \<Rightarrow> 'a component_scheme \<Rightarrow> 'a component_scheme" where
  "connectWebSocket endpoint failure constructed s =
     (if isUnmounting s \<or> ws_readyState s = Some OPEN then s
      else
        let s1 = (case wsRef s of
                    Some c \<Rightarrow> (ws_close c s)\<lparr>wsRef := None\<rparr>
                  | None \<Rightarrow> s)
        in if constructed
           then s1\<lparr>sockets := sockets s1 @ [\<lparr>url = endpoint, readyState = CONNECTING, sent = []\<rparr>],
                   wsRef := Some (length (sockets s1))\<rparr>
           else if \<not> isUnmounting s1
                then s1\<lparr>error := Some failure, isConnected := False\<rparr>
                else s1)"

text \<open>
  \<^verbatim>\<open>ws.onerror\<close> (CoinMarketTable.tsx:88-94 and 391-399, CurrencyDetailPage.tsx:81-86);
  \<open>msg\<close> is the fixed text of the copy at hand.
\<close>

definition onerror :: "string \<Rightarrow> 'a component_scheme \<Rightarrow> 'a component_scheme" where
  "onerror msg s =
     (if \<not> isUnmounting s then s\<lparr>error := Some msg, isConnected := False\<rparr> else s)"

text \<open>
  \<^verbatim>\<open>ws.onclose\<close>. The table's copy (CoinMarketTable.tsx:96-112) tests the unmounting
  flag a second time inside; the detail pages' copies (CoinMarketTable.tsx:401-415,
  CurrencyDetailPage.tsx:88-95) do not.
\<close>

definition schedule_reconnect :: "'a component_scheme \<Rightarrow> 'a component_scheme" where
  "schedule_reconnect s =
     (let (t, s1) = setTimeout 5000 s in s1\<lparr>reconnectTimeoutRef := Some t\<rparr>)"

definition table_onclose :: "bool \<Rightarrow> 'a component_scheme \<Rightarrow> 'a component_scheme" where
  "table_onclose wasClean s =
     (if \<not> isUnmounting s then
        let s1 = s\<lparr>isConnected := False\<rparr>
        in if \<not> wasClean \<and> \<not> isUnmounting s1 \<and> visibilityState s1 \<noteq> Hidden
           then schedule_reconnect s1
           else s1
      else s)"

definition detail_onclose :: "bool \<Rightarrow> 'a component_scheme \<Rightarrow> 'a component_scheme" where
  "detail_onclose wasClean s =
     (if \<not> isUnmounting s then
        let s1 = s\<lparr>isConnected := False\<rparr>
        in if \<not> wasClean \<and> visibilityState s1 \<noteq> Hidden
           then schedule_reconnect s1
           else s1
      else s)"

text \<open>
  \<^verbatim>\<open>handleVisibilityChange\<close> (CoinMarketTable.tsx:122-126 and 427-431,
  CurrencyDetailPage.tsx:104-108); \<open>connect\<close> is the component's \<^verbatim>\<open>connectWebSocket\<close>.
\<close>

definition handleVisibilityChange ::
  "('a component_scheme \<Rightarrow> 'a component_scheme) \<Rightarrow> 'a component_scheme \<Rightarrow> 'a component_scheme" where
  "handleVisibilityChange connect s = (if visibilityState s = Visible then connect s else s)"

text \<open>
  The effect's cleanup (CoinMarketTable.tsx:132-144 and 436-446,
  CurrencyDetailPage.tsx:113-123): set the flag, remove the listener, clear the timeout
  the ref holds, close the socket the ref holds and drop it.
\<close>

definition cleanup :: "'a component_scheme \<Rightarrow> 'a component_scheme" where
  "cleanup s =
     (let s1 = s\<lparr>isUnmounting := True, listening := False\<rparr>;
          s2 = (case reconnectTimeoutRef s1 of
                  Some t \<Rightarrow> clearTimeout t s1
                | None \<Rightarrow> s1)
      in case wsRef s2 of
           Some c \<Rightarrow> (ws_close c s2)\<lparr>wsRef := None\<rparr>
         | None \<Rightarrow> s2)"

subsection \<open>The ticker table\<close>

text \<open>
  JavaScript numbers that carry prices and volumes are values of a type \<open>'n\<close> the
  model does not fix; page numbers and counts are integers.
\<close>

record 'n TickerData =
  symbol :: string
  price :: 'n
  volume :: 'n

record 'n PaginatedResponse =
  data :: "'n TickerData list"
  total :: int
  page :: int
  per_page :: int

text \<open>
  The table's state: \<open>paginatedData\<close> is the React state; \<open>effectPaginatedData\<close> is the
  \<^verbatim>\<open>paginatedData\<close> that the effect's closure reads. The effect has the dependency list
  \<^verbatim>\<open>[]\<close>, so React runs it once, for the first render, and \<^verbatim>\<open>connectWebSocket\<close> and the
  callbacks it creates keep the binding of that render.
\<close>

record 'n table = component +
  paginatedData :: "'n PaginatedResponse"
  effectPaginatedData :: "'n PaginatedResponse"

definition table_init :: "visibility \<Rightarrow> 'n table" where
  "table_init v =
     \<lparr>isConnected = False, error = None, wsRef = None, reconnectTimeoutRef = None,
      isUnmounting = False, sockets = [], timers = [], nextTimeoutId = 1,
      visibilityState = v, listening = False,
      paginatedData = \<lparr>data = [], total = 0, page = 1, per_page = 30\<rparr>,
      effectPaginatedData = \<lparr>data = [], total = 0, page = 1, per_page = 30\<rparr>\<rparr>"

definition table_connect :: "bool \<Rightarrow> 'n table \<Rightarrow> 'n table" where
  "table_connect constructed s =
     connectWebSocket ''ws://127.0.0.1:8080'' ''Failed to connect to WebSocket'' constructed s"

text \<open>\<^verbatim>\<open>ws.onopen\<close> of the socket \<open>ws\<close> (CoinMarketTable.tsx:63-75).\<close>

definition table_onopen :: "nat \<Rightarrow> 'n table \<Rightarrow> 'n table" where
  "table_onopen ws s =
     (if \<not> isUnmounting s
      then ws_send ws
             (PageRequest (page (effectPaginatedData s)) (per_page (effectPaginatedData s)))
             (s\<lparr>isConnected := True, error := None\<rparr>)
      else s)"

text \<open>
  \<^verbatim>\<open>ws.onmessage\<close> (CoinMarketTable.tsx:77-86). The argument is what
  \<^verbatim>\<open>JSON.parse(event.data)\<close> gives: \<open>None\<close> when it throws, the decoded payload otherwise.
\<close>

definition table_onmessage :: "'n PaginatedResponse option \<Rightarrow> 'n table \<Rightarrow> 'n table" where
  "table_onmessage parsed s =
     (if \<not> isUnmounting s
      then (case parsed of
              Some response \<Rightarrow> s\<lparr>paginatedData := response\<rparr>
            | None \<Rightarrow> s)
      else s)"

definition table_onerror :: "'n table \<Rightarrow> 'n table" where
  "table_onerror s = onerror ''WebSocket error occurred'' s"

text \<open>\<^verbatim>\<open>handlePageChange\<close> (CoinMarketTable.tsx:147-156), created anew by every render.\<close>

definition handlePageChange :: "int \<Rightarrow> 'n table \<Rightarrow> 'n table" where
  "handlePageChange newPage s =
     (if ws_readyState s = Some OPEN
      then (case wsRef s of
              Some c \<Rightarrow> ws_send c (PageRequest newPage (per_page (paginatedData s))) s
            | None \<Rightarrow> s)
      else s)"

text \<open>
  The Pagination control is the only caller of \<^verbatim>\<open>handlePageChange\<close>, and the table
  renders it only when \<^verbatim>\<open>Math.ceil(paginatedData.total / paginatedData.per_page) > 1\<close>
  (CoinMarketTable.tsx:214, 263-273), that is, when the quotient exceeds 1. A division
  by zero gives Infinity for a positive total and NaN or -Infinity otherwise. (The
  quotient of two counts is taken as exact.)
\<close>

definition pagination_shown :: "'n PaginatedResponse \<Rightarrow> bool" where
  "pagination_shown r =
     (if per_page r = 0 then 0 < total r
      else if 0 < per_page r then per_page r < total r
      else total r < per_page r)"

text \<open>
  The effect's body (CoinMarketTable.tsx:43-130): clear the flag, bind the closures,
  register the listener, connect.
\<close>

definition table_effect :: "bool \<Rightarrow> 'n table \<Rightarrow> 'n table" where
  "table_effect constructed s =
     table_connect constructed
       (s\<lparr>isUnmounting := False, effectPaginatedData := paginatedData s, listening := True\<rparr>)"

text \<open>
  What reaches the mounted table. A socket event is delivered only in a state of the
  socket in which the browser fires it, after the browser has updated \<^verbatim>\<open>readyState\<close>:
  \<open>open\<close> on a connecting socket, \<open>message\<close> on an open one, \<open>error\<close> and \<open>close\<close> on
  one that has not reported its close yet. A timeout runs \<^verbatim>\<open>connectWebSocket\<close> when it is
  still pending. The flag of \<open>Timeout\<close> and \<open>VisibilityChange\<close> says whether the
  WebSocket constructor returns, should the callback reach it. A page change reaches
  the table only while the Pagination control is on screen.
\<close>

datatype 'n table_event =
    WsOpen nat
  | WsMessage nat "'n PaginatedResponse option"
  | WsError nat
  | WsClose nat bool
  | Timeout nat bool
  | VisibilityChange visibility bool
  | PageChange int

definition socket_in :: "nat \<Rightarrow> readyState list \<Rightarrow> 'a component_scheme \<Rightarrow> bool" where
  "socket_in c rs s = (c < length (sockets s) \<and> readyState (sockets s ! c) \<in> set rs)"

fun table_step :: "'n table_event \<Rightarrow> 'n table \<Rightarrow> 'n table" where
  "table_step (WsOpen c) s =
     (if socket_in c [CONNECTING] s then table_onopen c (set_readyState c OPEN s) else s)"
| "table_step (WsMessage c parsed) s =
     (if socket_in c [OPEN] s then table_onmessage parsed s else s)"
| "table_step (WsError c) s =
     (if socket_in c [CONNECTING, OPEN, CLOSING] s then table_onerror s else s)"
| "table_step (WsClose c wasClean) s =
     (if socket_in c [CONNECTING, OPEN, CLOSING] s
      then table_onclose wasClean (set_readyState c CLOSED s) else s)"
| "table_step (Timeout t constructed) s =
     (if pending t s then table_connect constructed (clearTimeout t s) else s)"
| "table_step (VisibilityChange v constructed) s =
     (let s1 = s\<lparr>visibilityState := v\<rparr>
      in if listening s1 then handleVisibilityChange (table_connect constructed) s1 else s1)"
| "table_step (PageChange newPage) s =
     (if pagination_shown (paginatedData s) then handlePageChange newPage s else s)"

definition table_run :: "'n table_event list \<Rightarrow> 'n table \<Rightarrow> 'n table" where
  "table_run es s = foldl (\<lambda>st e. table_step e st) s es"

subsection \<open>The detail page\<close>

text \<open>
  The candle as the detail page of CoinMarketTable.tsx declares it (lines 305-313). The
  copy in CurrencyDetailPage.tsx declares the same interface without \<^verbatim>\<open>event_time\<close>
  (lines 25-32); declared types are erased when the page runs, and its callback stores
  whatever objects the decoded array holds.
\<close>

record 'n SymbolData =
  event_time :: string
  symbol :: string
  close_price :: 'n
  open_price :: 'n
  high_price :: 'n
  low_price :: 'n
  quote_volume :: 'n

text \<open>
  What \<^verbatim>\<open>processedData\<close> holds (CoinMarketTable.tsx:374-380): the candle's own fields and
  the two derived ones.
\<close>

record 'n ProcessedData = "'n SymbolData" +
  formattedTime :: string
  priceChange :: 'n

text \<open>The detail page's state; \<open>'c\<close> is the type of the stored candles.\<close>

record 'c detail = component +
  data :: "'c list"

datatype detail_copy = AsReceived | SortedByTime

text \<open>
  \<open>AsReceived\<close> is the component of CurrencyDetailPage.tsx, \<open>SortedByTime\<close> the detail
  page of CoinMarketTable.tsx. Their lifecycle code differs in two texts only.
\<close>

fun failure_text :: "detail_copy \<Rightarrow> string" where
  "failure_text AsReceived = ''Failed to connect to WebSocket''"
| "failure_text SortedByTime =
     ''Failed to connect to WebSocket. Make sure the backend is running at 127.0.0.1:8080.''"

fun error_text :: "detail_copy \<Rightarrow> string" where
  "error_text AsReceived = ''WebSocket error occurred''"
| "error_text SortedByTime = ''WebSocket error occurred. Make sure the backend is running.''"

text \<open>
  The route parameter (CurrencyDetailPage.tsx:35-38, CoinMarketTable.tsx:316-319):
  \<^verbatim>\<open>useParams\<close> gives a string or undefined, and \<^verbatim>\<open>!symbol\<close> holds for undefined and for
  the empty string.
\<close>

definition resolve_symbol :: "string option \<Rightarrow> string" where
  "resolve_symbol param =
     (case param of
        None \<Rightarrow> ''BTCUSDT''
      | Some name \<Rightarrow> if name = [] then ''BTCUSDT'' else name)"

definition detail_endpoint :: "string \<Rightarrow> string" where
  "detail_endpoint name = ''ws://127.0.0.1:8080/currency/'' @ name"

definition detail_connect :: "detail_copy \<Rightarrow> string \<Rightarrow> bool \<Rightarrow> 'c detail \<Rightarrow> 'c detail" where
  "detail_connect copy name constructed s =
     connectWebSocket (detail_endpoint name) (failure_text copy) constructed s"

text \<open>\<^verbatim>\<open>ws.onopen\<close> (CurrencyDetailPage.tsx:63-68, CoinMarketTable.tsx:354-360).\<close>

definition detail_onopen :: "'c detail \<Rightarrow> 'c detail" where
  "detail_onopen s =
     (if \<not> isUnmounting s then s\<lparr>isConnected := True, error := None\<rparr> else s)"

text \<open>\<^verbatim>\<open>ws.onmessage\<close> of CurrencyDetailPage.tsx:70-79.\<close>

definition asReceived_onmessage :: "'c list option \<Rightarrow> 'c detail \<Rightarrow> 'c detail" where
  "asReceived_onmessage parsed s =
     (if \<not> isUnmounting s
      then (case parsed of
              Some parsedData \<Rightarrow> s\<lparr>data := parsedData\<rparr>
            | None \<Rightarrow> s)
      else s)"

text \<open>
  The comparator of CoinMarketTable.tsx:369-371. \<open>getTime\<close> stands for
  \<^verbatim>\<open>new Date(t).getTime()\<close>: the milliseconds of a timestamp, or \<open>None\<close> for the NaN of a
  text that \<^verbatim>\<open>Date\<close> cannot read. The difference of two times is NaN when either is,
  and \<^verbatim>\<open>Array.prototype.sort\<close> takes a NaN from its comparator as 0.
\<close>

definition sortCompare ::
  "(string \<Rightarrow> int option) \<Rightarrow> ('n, 'z) SymbolData_scheme \<Rightarrow> ('n, 'z) SymbolData_scheme \<Rightarrow> int" where
  "sortCompare getTime a b =
     (case (getTime (event_time a), getTime (event_time b)) of
        (Some x, Some y) \<Rightarrow> x - y
      | _ \<Rightarrow> 0)"

text \<open>
  \<^verbatim>\<open>[...parsedData].sort(compare)\<close>: a stable sort. For a comparator that is not a
  consistent order, which NaN can make it, the language leaves the result to the
  implementation; the model takes the insertion sort, which is what an engine does on
  a short array.
\<close>

fun insertSorted :: "('a \<Rightarrow> 'a \<Rightarrow> int) \<Rightarrow> 'a \<Rightarrow> 'a list \<Rightarrow> 'a list" where
  "insertSorted compare x [] = [x]"
| "insertSorted compare x (y # ys) =
     (if compare x y \<le> 0 then x # y # ys else y # insertSorted compare x ys)"

definition array_sort :: "('a \<Rightarrow> 'a \<Rightarrow> int) \<Rightarrow> 'a list \<Rightarrow> 'a list" where
  "array_sort compare xs = foldr (insertSorted compare) xs []"

text \<open>
  \<^verbatim>\<open>ws.onmessage\<close> of CoinMarketTable.tsx:362-389; \<open>formatTimeLabel\<close> stands for the
  locale-dependent function of that name (lines 470-473).
\<close>

definition processItem :: "(string \<Rightarrow> string) \<Rightarrow> ('n::minus) SymbolData \<Rightarrow> 'n ProcessedData" where
  "processItem formatTimeLabel item =
     \<lparr>event_time = event_time item, symbol = symbol item,
      close_price = close_price item, open_price = open_price item,
      high_price = high_price item, low_price = low_price item,
      quote_volume = quote_volume item,
      formattedTime = formatTimeLabel (event_time item),
      priceChange = close_price item - open_price item\<rparr>"

definition sorted_onmessage ::
  "(string \<Rightarrow> int option) \<Rightarrow> (string \<Rightarrow> string) \<Rightarrow> ('n::minus) SymbolData list option \<Rightarrow>
   'n ProcessedData detail \<Rightarrow> 'n ProcessedData detail" where
  "sorted_onmessage getTime formatTimeLabel parsed s =
     (if \<not> isUnmounting s
      then (case parsed of
              Some parsedData \<Rightarrow>
                if length parsedData > 0
                then let sortedData = array_sort (sortCompare getTime) parsedData;
                         processedData = map (processItem formatTimeLabel) sortedData
                     in s\<lparr>data := processedData\<rparr>
                else s
            | None \<Rightarrow> s)
      else s)"

definition detail_onerror :: "detail_copy \<Rightarrow> 'c detail \<Rightarrow> 'c detail" where
  "detail_onerror copy s = onerror (error_text copy) s"

definition detail_init :: "visibility \<Rightarrow> 'c detail" where
  "detail_init v =
     \<lparr>isConnected = False, error = None, wsRef = None, reconnectTimeoutRef = None,
      isUnmounting = False, sockets = [], timers = [], nextTimeoutId = 1,
      visibilityState = v, listening = False, data = []\<rparr>"

text \<open>
  The effect's body (CurrencyDetailPage.tsx:46-111, CoinMarketTable.tsx:327-434) for
  the symbol of the render, and the first run of the effect on a fresh component
  given the route parameter.
\<close>

definition detail_effect :: "detail_copy \<Rightarrow> string \<Rightarrow> bool \<Rightarrow> 'c detail \<Rightarrow> 'c detail" where
  "detail_effect copy name constructed s =
     detail_connect copy name constructed (s\<lparr>isUnmounting := False, listening := True\<rparr>)"

definition detail_mount ::
  "detail_copy \<Rightarrow> string option \<Rightarrow> visibility \<Rightarrow> bool \<Rightarrow> 'c detail" where
  "detail_mount copy param v constructed =
     detail_effect copy (resolve_symbol param) constructed (detail_init v)"

text \<open>A run of inbound messages through one handler, oldest first.\<close>

definition table_receive :: "'n PaginatedResponse option list \<Rightarrow> 'n table \<Rightarrow> 'n table" where
  "table_receive ms s = foldl (\<lambda>st m. table_onmessage m st) s ms"

definition sorted_receive ::
  "(string \<Rightarrow> int option) \<Rightarrow> (string \<Rightarrow> string) \<Rightarrow> ('n::minus) SymbolData list option list \<Rightarrow>
   'n ProcessedData detail \<Rightarrow> 'n ProcessedData detail" where
  "sorted_receive getTime formatTimeLabel ms s =
     foldl (\<lambda>st m. sorted_onmessage getTime formatTimeLabel m st) s ms"

text \<open>
  A batch is readable when \<^verbatim>\<open>Date\<close> reads the \<^verbatim>\<open>event_time\<close> of each of its candles. A
  series ascends when of any two of its candles the earlier in the series has a
  readable time that is not after the readable time of the later. \<open>time_of\<close> is the
  time of a candle whose timestamp is readable.
\<close>

definition readable :: "(string \<Rightarrow> int option) \<Rightarrow> ('n, 'z) SymbolData_scheme list \<Rightarrow> bool" where
  "readable getTime xs = (\<forall>c \<in> set xs. getTime (event_time c) \<noteq> None)"

definition ascending :: "(string \<Rightarrow> int option) \<Rightarrow> ('n, 'z) SymbolData_scheme list \<Rightarrow> bool" where
  "ascending getTime xs =
     sorted_wrt (\<lambda>a b. case (getTime (event_time a), getTime (event_time b)) of
                          (Some x, Some y) \<Rightarrow> x \<le> y
                        | _ \<Rightarrow> False) xs"

definition time_of :: "(string \<Rightarrow> int option) \<Rightarrow> ('n, 'z) SymbolData_scheme \<Rightarrow> int" where
  "time_of getTime a = (case getTime (event_time a) of Some t \<Rightarrow> t | None \<Rightarrow> 0)"

text \<open>
  What it means that the component did nothing between two states: the flag is set and
  the socket ref is empty, no socket was constructed, nothing was sent, no timeout was
  set, and the React state is as it was. (The browser may still have moved a socket's
  \<^verbatim>\<open>readyState\<close>, and a pending timeout may have run out.)
\<close>

definition torn_down :: "'n table \<Rightarrow> 'n table \<Rightarrow> bool" where
  "torn_down s s' =
     (isUnmounting s' \<and> wsRef s' = None
      \<and> map url (sockets s') = map url (sockets s)
      \<and> map sent (sockets s') = map sent (sockets s)
      \<and> set (timers s') \<subseteq> set (timers s)
      \<and> nextTimeoutId s' = nextTimeoutId s
      \<and> paginatedData s' = paginatedData s
      \<and> isConnected s' = isConnected s
      \<and> error s' = error s)"

section \<open>Properties\<close>

subsection \<open>Facts about the browser primitives\<close>

lemma map_update_same: "c < length xs \<Longrightarrow> (map f xs)[c := f (xs ! c)] = map f xs"
  by (simp add: list_eq_iff_nth_eq nth_list_update)

lemma set_readyState_fields [simp]:
  "isUnmounting (set_readyState c r s) = isUnmounting s"
  "wsRef (set_readyState c r s) = wsRef s"
  "timers (set_readyState c r s) = timers s"
  "nextTimeoutId (set_readyState c r s) = nextTimeoutId s"
  "reconnectTimeoutRef (set_readyState c r s) = reconnectTimeoutRef s"
  "visibilityState (set_readyState c r s) = visibilityState s"
  "listening (set_readyState c r s) = listening s"
  "isConnected (set_readyState c r s) = isConnected s"
  "error (set_readyState c r s) = error s"
  "length (sockets (set_readyState c r s)) = length (sockets s)"
  "map sent (sockets (set_readyState c r s)) = map sent (sockets s)"
  "map url (sockets (set_readyState c r s)) = map url (sockets s)"
  by (simp_all add: set_readyState_def map_update map_update_same)

lemma ws_close_fields [simp]:
  "isUnmounting (ws_close c s) = isUnmounting s"
  "wsRef (ws_close c s) = wsRef s"
  "timers (ws_close c s) = timers s"
  "nextTimeoutId (ws_close c s) = nextTimeoutId s"
  "reconnectTimeoutRef (ws_close c s) = reconnectTimeoutRef s"
  "visibilityState (ws_close c s) = visibilityState s"
  "listening (ws_close c s) = listening s"
  "isConnected (ws_close c s) = isConnected s"
  "error (ws_close c s) = error s"
  "length (sockets (ws_close c s)) = length (sockets s)"
  "map sent (sockets (ws_close c s)) = map sent (sockets s)"
  "map url (sockets (ws_close c s)) = map url (sockets s)"
  by (simp_all add: ws_close_def)

lemma clearTimeout_fields [simp]:
  "isUnmounting (clearTimeout t s) = isUnmounting s"
  "wsRef (clearTimeout t s) = wsRef s"
  "sockets (clearTimeout t s) = sockets s"
  "reconnectTimeoutRef (clearTimeout t s) = reconnectTimeoutRef s"
  "visibilityState (clearTimeout t s) = visibilityState s"
  "listening (clearTimeout t s) = listening s"
  "isConnected (clearTimeout t s) = isConnected s"
  "error (clearTimeout t s) = error s"
  "set (timers (clearTimeout t s)) \<subseteq> set (timers s)"
  "\<not> pending t (clearTimeout t s)"
  by (auto simp: clearTimeout_def pending_def)

lemma table_state_kept [simp]:
  "paginatedData (set_readyState c r s) = paginatedData s"
  "effectPaginatedData (set_readyState c r s) = effectPaginatedData s"
  "paginatedData (ws_close c s) = paginatedData s"
  "effectPaginatedData (ws_close c s) = effectPaginatedData s"
  "paginatedData (clearTimeout t s) = paginatedData s"
  "effectPaginatedData (clearTimeout t s) = effectPaginatedData s"
  by (simp_all add: set_readyState_def ws_close_def clearTimeout_def)

subsection \<open>The table shows the last payload\<close>

lemma table_onmessage_flag: "isUnmounting (table_onmessage m s) = isUnmounting s"
  by (simp add: table_onmessage_def split: option.splits)

lemma table_receive_flag: "isUnmounting (table_receive ms s) = isUnmounting s"
  unfolding table_receive_def
  by (induction ms arbitrary: s) (simp_all add: table_onmessage_flag)

lemma table_receive_snoc: "table_receive (ms @ [m]) s = table_onmessage m (table_receive ms s)"
  by (simp add: table_receive_def)

lemma connect_page_data:
  "paginatedData (connectWebSocket endpoint failure constructed s) = paginatedData s"
  by (simp add: connectWebSocket_def Let_def split: option.splits)

lemma table_step_page_data:
  "paginatedData (table_step e s)
     = (case e of
          WsMessage c (Some p) \<Rightarrow>
            if socket_in c [OPEN] s \<and> \<not> isUnmounting s then p else paginatedData s
        | _ \<Rightarrow> paginatedData s)"
proof (cases e)
  case (WsOpen c)
  then show ?thesis by (simp add: table_onopen_def ws_send_def)
next
  case (WsMessage c m)
  then show ?thesis by (simp add: table_onmessage_def split: option.splits)
next
  case (WsError c)
  then show ?thesis by (simp add: table_onerror_def onerror_def)
next
  case (WsClose c wasClean)
  then show ?thesis
    by (simp add: table_onclose_def schedule_reconnect_def setTimeout_def Let_def)
next
  case (Timeout t constructed)
  then show ?thesis by (simp add: table_connect_def connect_page_data)
next
  case (VisibilityChange v constructed)
  then show ?thesis
    by (simp add: table_connect_def connect_page_data handleVisibilityChange_def Let_def)
next
  case (PageChange newPage)
  then show ?thesis by (simp add: handlePageChange_def ws_send_def split: option.splits)
qed

text \<open>
  C1. Whatever messages a mounted table has received (payloads, or texts that
  \<^verbatim>\<open>JSON.parse\<close> rejects), after a message that decodes to the payload \<open>p\<close> the state
  \<open>paginatedData\<close> is \<open>p\<close> itself, so the rows on screen are exactly the \<open>data\<close> of \<open>p\<close>:
  the payload replaces the state, nothing of an earlier payload is left. Nothing but a
  decoded message on an open socket writes the state: after any event it is the
  payload of that event or what it was.
\<close>

theorem table_shows_last_payload:
  assumes "\<not> isUnmounting s"
  shows "paginatedData (table_receive (ms @ [Some p]) s) = p
       \<and> PaginatedResponse.data (paginatedData (table_receive (ms @ [Some p]) s))
           = PaginatedResponse.data p
       \<and> paginatedData (table_step e s)
           = (case e of
                WsMessage c (Some q) \<Rightarrow> if socket_in c [OPEN] s then q else paginatedData s
              | _ \<Rightarrow> paginatedData s)"
proof -
  have "\<not> isUnmounting (table_receive ms s)"
    using assms by (simp add: table_receive_flag)
  then have last: "paginatedData (table_receive (ms @ [Some p]) s) = p"
    by (simp add: table_receive_snoc table_onmessage_def)
  have "paginatedData (table_step e s)
      = (case e of
           WsMessage c (Some q) \<Rightarrow> if socket_in c [OPEN] s then q else paginatedData s
         | _ \<Rightarrow> paginatedData s)"
    using assms
    by (simp add: table_step_page_data split: table_event.splits option.splits)
  with last show ?thesis by simp
qed

theorem table_shows_last_payload_witness:
  "\<not> isUnmounting (table_init Visible :: int table)
   \<and> PaginatedResponse.data (paginatedData (table_receive
        [Some \<lparr>PaginatedResponse.data =
                 [\<lparr>TickerData.symbol = ''BTCUSDT'', price = 97000, volume = 5\<rparr>,
                  \<lparr>TickerData.symbol = ''ETHUSDT'', price = 3300, volume = 8\<rparr>],
               total = 120, page = 1, per_page = 30\<rparr>,
         None,
         Some \<lparr>PaginatedResponse.data =
                 [\<lparr>TickerData.symbol = ''XRPUSDT'', price = 2, volume = 9\<rparr>],
               total = 120, page = 4, per_page = 30\<rparr>]
        (table_init Visible :: int table)))
     = [\<lparr>TickerData.symbol = ''XRPUSDT'', price = 2, volume = 9\<rparr>]"
  using table_shows_last_payload
    [of "table_init Visible :: int table"
        "[Some \<lparr>PaginatedResponse.data =
                 [\<lparr>TickerData.symbol = ''BTCUSDT'', price = 97000, volume = 5\<rparr>,
                  \<lparr>TickerData.symbol = ''ETHUSDT'', price = 3300, volume = 8\<rparr>],
               total = 120, page = 1, per_page = 30\<rparr>, None]"
        "\<lparr>PaginatedResponse.data =
            [\<lparr>TickerData.symbol = ''XRPUSDT'', price = 2, volume = 9\<rparr>],
          total = 120, page = 4, per_page = 30\<rparr>"]
  by (simp add: table_init_def)

subsection \<open>The detail page's series\<close>

lemma processItem_fields [simp]:
  "event_time (processItem fmt a) = event_time a"
  "close_price (processItem fmt a) = close_price a"
  "open_price (processItem fmt a) = open_price a"
  "priceChange (processItem fmt a) = close_price a - open_price a"
  "formattedTime (processItem fmt a) = fmt (event_time a)"
  by (simp_all add: processItem_def)

lemma time_of_processed [simp]: "time_of g (processItem fmt a) = time_of g a"
  by (simp add: time_of_def)

lemma readable_processed [simp]: "readable g (map (processItem fmt) xs) = readable g xs"
  by (simp add: readable_def)

lemma ascending_processed [simp]: "ascending g (map (processItem fmt) xs) = ascending g xs"
  by (simp add: ascending_def sorted_wrt_map cong: option.case_cong)

lemma mset_insertSorted: "mset (insertSorted compare x ys) = add_mset x (mset ys)"
  by (induction ys) simp_all

lemma mset_array_sort: "mset (array_sort compare xs) = mset xs"
  unfolding array_sort_def by (induction xs) (simp_all add: mset_insertSorted)

lemma length_array_sort: "length (array_sort compare xs) = length xs"
  using mset_array_sort [of compare xs] by (metis size_mset)

lemma set_array_sort: "set (array_sort compare xs) = set xs"
  using mset_array_sort [of compare xs] by (metis set_mset_mset)

text \<open>With readable timestamps the comparator is the order of the times, and the sort is the stable sort by time.\<close>

lemma sortCompare_readable:
  "g (event_time a) \<noteq> None \<Longrightarrow> g (event_time b) \<noteq> None \<Longrightarrow>
   (sortCompare g a b \<le> 0) = (time_of g a \<le> time_of g b)"
  by (auto simp: sortCompare_def time_of_def)

lemma insertSorted_readable:
  "readable g (x # ys) \<Longrightarrow> insertSorted (sortCompare g) x ys = insort_key (time_of g) x ys"
  by (induction ys) (simp_all add: readable_def sortCompare_readable)

lemma array_sort_readable:
  "readable g xs \<Longrightarrow> array_sort (sortCompare g) xs = sort_key (time_of g) xs"
proof (induction xs)
  case Nil
  then show ?case by (simp add: array_sort_def)
next
  case (Cons x xs)
  then have rest: "array_sort (sortCompare g) xs = sort_key (time_of g) xs"
    by (simp add: readable_def)
  have "readable g (x # sort_key (time_of g) xs)"
    using Cons.prems by (simp add: readable_def)
  then have "insertSorted (sortCompare g) x (sort_key (time_of g) xs)
      = insort_key (time_of g) x (sort_key (time_of g) xs)"
    by (rule insertSorted_readable)
  then show ?case
    using rest by (simp add: array_sort_def)
qed

lemma ascending_readable:
  assumes "readable g xs"
  shows "ascending g xs = sorted (map (time_of g) xs)"
proof -
  have "sorted_wrt (\<lambda>a b. case (g (event_time a), g (event_time b)) of
                            (Some x, Some y) \<Rightarrow> x \<le> y | _ \<Rightarrow> False) xs
      = sorted_wrt (\<lambda>a b. time_of g a \<le> time_of g b) xs"
    using assms
    by (induction xs) (auto simp: readable_def time_of_def split: option.splits)
  then show ?thesis
    by (simp add: ascending_def sorted_map)
qed

lemma array_sort_ascending:
  "readable g xs \<Longrightarrow> ascending g (array_sort (sortCompare g) xs)"
proof -
  assume r: "readable g xs"
  then have "readable g (sort_key (time_of g) xs)"
    by (simp add: readable_def)
  then show ?thesis
    using r by (simp add: array_sort_readable ascending_readable)
qed

lemma sorted_onmessage_batch:
  "\<not> isUnmounting s \<Longrightarrow> batch \<noteq> [] \<Longrightarrow>
   data (sorted_onmessage g fmt (Some batch) s)
     = map (processItem fmt) (array_sort (sortCompare g) batch)"
  by (simp add: sorted_onmessage_def)

lemma sorted_onmessage_keeps_ascending:
  "ascending g (data s) \<Longrightarrow> (\<forall>b. m = Some b \<longrightarrow> readable g b) \<Longrightarrow>
   ascending g (data (sorted_onmessage g fmt m s))"
  by (simp add: sorted_onmessage_def array_sort_ascending split: option.splits)

lemma sorted_receive_keeps_ascending:
  "ascending g (data s) \<Longrightarrow> (\<forall>b. Some b \<in> set ms \<longrightarrow> readable g b) \<Longrightarrow>
   ascending g (data (sorted_receive g fmt ms s))"
  unfolding sorted_receive_def
  by (induction ms arbitrary: s) (simp_all add: sorted_onmessage_keeps_ascending)

lemma sorted_receive_ignores:
  "set ms \<subseteq> {None, Some []} \<Longrightarrow> sorted_receive g fmt ms s = s"
  unfolding sorted_receive_def
  by (induction ms arbitrary: s) (auto simp: sorted_onmessage_def)

text \<open>
  C2, as the claim states it, fails on the detail page of CurrencyDetailPage.tsx: its
  \<^verbatim>\<open>onmessage\<close> (lines 70-79) passes every decoded array to \<^verbatim>\<open>setData\<close>, so an empty batch
  empties a series of two candles.
\<close>

theorem empty_batch_counterexample:
  "length (data (asReceived_onmessage (Some [])
      (asReceived_onmessage
         (Some [\<lparr>event_time = ''2025-03-01T10:00:00Z'', symbol = ''ETHUSDT'',
                  close_price = 2210, open_price = 2200, high_price = 2215,
                  low_price = 2195, quote_volume = (900::int)\<rparr>,
                \<lparr>event_time = ''2025-03-01T10:01:00Z'', symbol = ''ETHUSDT'',
                  close_price = 2205, open_price = 2210, high_price = 2212,
                  low_price = 2201, quote_volume = 700\<rparr>])
         (detail_init Visible)))) = 0
   \<and> length (data (asReceived_onmessage
         (Some [\<lparr>event_time = ''2025-03-01T10:00:00Z'', symbol = ''ETHUSDT'',
                  close_price = 2210, open_price = 2200, high_price = 2215,
                  low_price = 2195, quote_volume = (900::int)\<rparr>,
                \<lparr>event_time = ''2025-03-01T10:01:00Z'', symbol = ''ETHUSDT'',
                  close_price = 2205, open_price = 2210, high_price = 2212,
                  low_price = 2201, quote_volume = 700\<rparr>])
         (detail_init Visible))) = 2"
  by (simp add: asReceived_onmessage_def detail_init_def)

text \<open>
  C2, amended. On the detail page of CoinMarketTable.tsx (lines 362-389) an empty batch
  changes nothing at all: the series, the status and the error text stay as they were,
  and so they do after any run of empty batches and of messages that do not decode.
  On the detail page of CurrencyDetailPage.tsx (lines 70-79) a mounted page stores the
  empty batch, and the series is empty afterwards.
\<close>

theorem empty_batch_by_copy:
  "sorted_onmessage getTime formatTimeLabel (Some []) s = s
   \<and> (set ms \<subseteq> {None, Some []} \<longrightarrow> sorted_receive getTime formatTimeLabel ms s = s)
   \<and> (\<not> isUnmounting r \<longrightarrow> data (asReceived_onmessage (Some []) r) = [])"
proof -
  have "sorted_onmessage getTime formatTimeLabel (Some []) s = s"
    by (simp add: sorted_onmessage_def)
  moreover have "\<not> isUnmounting r \<longrightarrow> data (asReceived_onmessage (Some []) r) = []"
    by (simp add: asReceived_onmessage_def)
  ultimately show ?thesis
    using sorted_receive_ignores by blast
qed

theorem empty_batch_by_copy_witness:
  "data (sorted_onmessage (\<lambda>t. Some 0) (\<lambda>t. t) (Some [])
      (sorted_onmessage (\<lambda>t. Some 0) (\<lambda>t. t)
         (Some [\<lparr>event_time = ''2025-03-01T10:00:00Z'', symbol = ''ETHUSDT'',
                  close_price = 2210, open_price = 2200, high_price = 2215,
                  low_price = 2195, quote_volume = (900::int)\<rparr>])
         (detail_init Visible)))
     = [\<lparr>event_time = ''2025-03-01T10:00:00Z'', symbol = ''ETHUSDT'',
          close_price = 2210, open_price = 2200, high_price = 2215,
          low_price = 2195, quote_volume = 900,
          formattedTime = ''2025-03-01T10:00:00Z'', priceChange = 10\<rparr>]
   \<and> set [Some [], None, Some ([] :: int SymbolData list)] \<subseteq> {None, Some []}
   \<and> length (data (sorted_receive (\<lambda>t. Some 0) (\<lambda>t. t) [Some [], None, Some []]
      (sorted_onmessage (\<lambda>t. Some 0) (\<lambda>t. t)
         (Some [\<lparr>event_time = ''2025-03-01T10:00:00Z'', symbol = ''ETHUSDT'',
                  close_price = 2210, open_price = 2200, high_price = 2215,
                  low_price = 2195, quote_volume = (900::int)\<rparr>])
         (detail_init Visible)))) = 1
   \<and> \<not> isUnmounting (detail_init Visible :: int detail)
   \<and> data (asReceived_onmessage (Some []) (detail_init Visible :: int detail)) = []"
  using empty_batch_by_copy
    [where getTime = "\<lambda>t. Some 0" and formatTimeLabel = "\<lambda>t. t"
       and s = "sorted_onmessage (\<lambda>t. Some 0) (\<lambda>t. t)
           (Some [\<lparr>event_time = ''2025-03-01T10:00:00Z'', symbol = ''ETHUSDT'',
                    close_price = 2210, open_price = 2200, high_price = 2215,
                    low_price = 2195, quote_volume = (900::int)\<rparr>])
           (detail_init Visible)"
       and ms = "[Some [], None, Some []]"
       and r = "detail_init Visible :: int detail"]
  by (simp add: sorted_onmessage_def processItem_def detail_init_def array_sort_def)

text \<open>
  C3, as the claim states it, fails on the detail page of CurrencyDetailPage.tsx
  (lines 70-79): a batch whose later candle comes first is stored in that order. The
  clock of the example reads the two timestamps as their milliseconds since 1970.
\<close>

theorem batch_sorted_counterexample:
  "\<not> ascending
       (\<lambda>t. if t = ''2025-03-01T10:00:00Z'' then Some 1740823200000
            else if t = ''2025-03-01T10:01:00Z'' then Some 1740823260000 else None)
       (data (asReceived_onmessage
          (Some [\<lparr>event_time = ''2025-03-01T10:01:00Z'', symbol = ''ETHUSDT'',
                   close_price = 2205, open_price = 2210, high_price = 2212,
                   low_price = 2201, quote_volume = (700::int)\<rparr>,
                 \<lparr>event_time = ''2025-03-01T10:00:00Z'', symbol = ''ETHUSDT'',
                   close_price = 2210, open_price = 2200, high_price = 2215,
                   low_price = 2195, quote_volume = 900\<rparr>])
          (detail_init Visible)))"
  by (simp add: asReceived_onmessage_def detail_init_def ascending_def)

text \<open>
  On the sorting page, too, the order depends on the timestamps: a candle whose
  \<^verbatim>\<open>event_time\<close> is no date compares as equal to every other, and the batch below is
  stored in the order in which it came, the candle of 10:01 before the candle of 10:00.
\<close>

lemma unreadable_timestamp_example:
  "map event_time (data (sorted_onmessage
       (\<lambda>t. if t = ''2025-03-01T10:00:00Z'' then Some 1740823200000
            else if t = ''2025-03-01T10:01:00Z'' then Some 1740823260000 else None)
       (\<lambda>t. t)
       (Some [\<lparr>event_time = ''2025-03-01T10:01:00Z'', symbol = ''ETHUSDT'',
                close_price = 2205, open_price = 2210, high_price = 2212,
                low_price = 2201, quote_volume = (700::int)\<rparr>,
              \<lparr>event_time = ''not a date'', symbol = ''ETHUSDT'',
                close_price = 2207, open_price = 2205, high_price = 2209,
                low_price = 2203, quote_volume = 300\<rparr>,
              \<lparr>event_time = ''2025-03-01T10:00:00Z'', symbol = ''ETHUSDT'',
                close_price = 2210, open_price = 2200, high_price = 2215,
                low_price = 2195, quote_volume = 900\<rparr>])
       (detail_init Visible)))
     = [''2025-03-01T10:01:00Z'', ''not a date'', ''2025-03-01T10:00:00Z'']"
  by (simp add: sorted_onmessage_def detail_init_def array_sort_def sortCompare_def)

text \<open>
  C3, amended. On the detail page of CoinMarketTable.tsx (lines 362-389), a non-empty
  batch that reaches a mounted page replaces the series, whatever it held, by a
  rearrangement of the batch, each candle extended with
  \<open>priceChange = close_price - open_price\<close>; the new series has the batch's length. When
  \<^verbatim>\<open>Date\<close> can read the \<^verbatim>\<open>event_time\<close> of every candle of the batch, the rearrangement is
  the stable sort by time and the times of the new series ascend; and a series that
  ascends still ascends after every run of messages whose batches are readable in
  this sense. (Of a batch with an unreadable timestamp no order is promised.) On the
  detail page of CurrencyDetailPage.tsx (lines 70-79) the batch is stored as it was
  received.
\<close>

theorem batch_replaces_series:
  assumes "\<not> isUnmounting s" and "batch \<noteq> []" and "\<not> isUnmounting r"
  shows "data (sorted_onmessage getTime formatTimeLabel (Some batch) s)
           = map (processItem formatTimeLabel) (array_sort (sortCompare getTime) batch)
       \<and> length (data (sorted_onmessage getTime formatTimeLabel (Some batch) s)) = length batch
       \<and> mset (map event_time (data (sorted_onmessage getTime formatTimeLabel (Some batch) s)))
           = mset (map event_time batch)
       \<and> (\<forall>c \<in> set (data (sorted_onmessage getTime formatTimeLabel (Some batch) s)).
             priceChange c = close_price c - open_price c)
       \<and> (readable getTime batch \<longrightarrow>
            data (sorted_onmessage getTime formatTimeLabel (Some batch) s)
              = map (processItem formatTimeLabel) (sort_key (time_of getTime) batch)
            \<and> ascending getTime (data (sorted_onmessage getTime formatTimeLabel (Some batch) s))
            \<and> sorted (map (time_of getTime)
                 (data (sorted_onmessage getTime formatTimeLabel (Some batch) s))))
       \<and> (ascending getTime (data s) \<and> (\<forall>b. Some b \<in> set ms \<longrightarrow> readable getTime b) \<longrightarrow>
            ascending getTime (data (sorted_receive getTime formatTimeLabel ms s)))
       \<and> data (asReceived_onmessage (Some batch) r) = batch"
proof -
  let ?new = "data (sorted_onmessage getTime formatTimeLabel (Some batch) s)"
  have new: "?new = map (processItem formatTimeLabel) (array_sort (sortCompare getTime) batch)"
    using assms(1,2) by (rule sorted_onmessage_batch)
  have len: "length ?new = length batch"
    by (simp add: new length_array_sort)
  have "map event_time ?new = map event_time (array_sort (sortCompare getTime) batch)"
    by (simp add: new)
  then have same: "mset (map event_time ?new) = mset (map event_time batch)"
    by (simp add: mset_array_sort)
  have change: "\<forall>c \<in> set ?new. priceChange c = close_price c - open_price c"
    by (auto simp: new)
  have stable: "?new = map (processItem formatTimeLabel) (sort_key (time_of getTime) batch)"
    if "readable getTime batch"
    using that by (simp add: new array_sort_readable)
  have asc: "ascending getTime ?new" if "readable getTime batch"
    using that by (simp add: new array_sort_ascending)
  have srt: "sorted (map (time_of getTime) ?new)" if "readable getTime batch"
    using that by (simp add: stable o_def)
  have plain: "data (asReceived_onmessage (Some batch) r) = batch"
    using assms(3) by (simp add: asReceived_onmessage_def)
  have inv: "ascending getTime (data s) \<and> (\<forall>b. Some b \<in> set ms \<longrightarrow> readable getTime b) \<longrightarrow>
      ascending getTime (data (sorted_receive getTime formatTimeLabel ms s))"
    using sorted_receive_keeps_ascending by blast
  show ?thesis
    using new len same change stable asc srt plain inv by blast
qed

theorem batch_replaces_series_witness:
  "\<not> isUnmounting (detail_init Visible :: int ProcessedData detail)
   \<and> readable
        (\<lambda>t. if t = ''2025-03-01T10:00:00Z'' then Some 1740823200000
             else if t = ''2025-03-01T10:01:00Z'' then Some 1740823260000 else None)
        [\<lparr>event_time = ''2025-03-01T10:01:00Z'', symbol = ''ETHUSDT'',
           close_price = 2205, open_price = 2210, high_price = 2212,
           low_price = 2201, quote_volume = (700::int)\<rparr>,
         \<lparr>event_time = ''2025-03-01T10:00:00Z'', symbol = ''ETHUSDT'',
           close_price = 2210, open_price = 2200, high_price = 2215,
           low_price = 2195, quote_volume = 900\<rparr>]
   \<and> data (sorted_onmessage
        (\<lambda>t. if t = ''2025-03-01T10:00:00Z'' then Some 1740823200000
             else if t = ''2025-03-01T10:01:00Z'' then Some 1740823260000 else None)
        (\<lambda>t. take 5 (drop 11 t))
        (Some [\<lparr>event_time = ''2025-03-01T10:01:00Z'', symbol = ''ETHUSDT'',
                 close_price = 2205, open_price = 2210, high_price = 2212,
                 low_price = 2201, quote_volume = (700::int)\<rparr>,
               \<lparr>event_time = ''2025-03-01T10:00:00Z'', symbol = ''ETHUSDT'',
                 close_price = 2210, open_price = 2200, high_price = 2215,
                 low_price = 2195, quote_volume = 900\<rparr>])
        (detail_init Visible))
     = [\<lparr>event_time = ''2025-03-01T10:00:00Z'', symbol = ''ETHUSDT'',
          close_price = 2210, open_price = 2200, high_price = 2215,
          low_price = 2195, quote_volume = 900,
          formattedTime = ''10:00'', priceChange = 10\<rparr>,
        \<lparr>event_time = ''2025-03-01T10:01:00Z'', symbol = ''ETHUSDT'',
          close_price = 2205, open_price = 2210, high_price = 2212,
          low_price = 2201, quote_volume = 700,
          formattedTime = ''10:01'', priceChange = - 5\<rparr>]
   \<and> ascending
        (\<lambda>t. if t = ''2025-03-01T10:00:00Z'' then Some 1740823200000
             else if t = ''2025-03-01T10:01:00Z'' then Some 1740823260000 else None)
        (data (sorted_receive
          (\<lambda>t. if t = ''2025-03-01T10:00:00Z'' then Some 1740823200000
               else if t = ''2025-03-01T10:01:00Z'' then Some 1740823260000 else None)
          (\<lambda>t. take 5 (drop 11 t))
          [Some [\<lparr>event_time = ''2025-03-01T10:01:00Z'', symbol = ''ETHUSDT'',
                   close_price = 2205, open_price = 2210, high_price = 2212,
                   low_price = 2201, quote_volume = (700::int)\<rparr>,
                 \<lparr>event_time = ''2025-03-01T10:00:00Z'', symbol = ''ETHUSDT'',
                   close_price = 2210, open_price = 2200, high_price = 2215,
                   low_price = 2195, quote_volume = 900\<rparr>],
           None, Some []]
          (detail_init Visible)))"
  using batch_replaces_series
    [where s = "detail_init Visible :: int ProcessedData detail"
       and batch = "[\<lparr>event_time = ''2025-03-01T10:01:00Z'', symbol = ''ETHUSDT'',
            close_price = 2205, open_price = 2210, high_price = 2212,
            low_price = 2201, quote_volume = (700::int)\<rparr>,
          \<lparr>event_time = ''2025-03-01T10:00:00Z'', symbol = ''ETHUSDT'',
            close_price = 2210, open_price = 2200, high_price = 2215,
            low_price = 2195, quote_volume = 900\<rparr>]"
       and r = "detail_init Visible :: int SymbolData detail"
       and getTime = "\<lambda>t. if t = ''2025-03-01T10:00:00Z'' then Some 1740823200000
             else if t = ''2025-03-01T10:01:00Z'' then Some 1740823260000 else None"
       and formatTimeLabel = "\<lambda>t. take 5 (drop 11 t)"
       and ms = "[Some [\<lparr>event_time = ''2025-03-01T10:01:00Z'', symbol = ''ETHUSDT'',
                   close_price = 2205, open_price = 2210, high_price = 2212,
                   low_price = 2201, quote_volume = (700::int)\<rparr>,
                 \<lparr>event_time = ''2025-03-01T10:00:00Z'', symbol = ''ETHUSDT'',
                   close_price = 2210, open_price = 2200, high_price = 2215,
                   low_price = 2195, quote_volume = 900\<rparr>],
           None, Some []]"]
  by (simp add: detail_init_def processItem_def readable_def ascending_def time_of_def
      sorted_receive_def sorted_onmessage_def array_sort_def sortCompare_def)

subsection \<open>Connecting twice\<close>

lemma connect_when_open:
  "ws_readyState s = Some OPEN \<Longrightarrow> connectWebSocket endpoint failure constructed s = s"
  by (simp add: connectWebSocket_def)

lemma connect_when_connecting:
  assumes "\<not> isUnmounting s" and "wsRef s = Some c" and "c < length (sockets s)"
    and "readyState (sockets s ! c) = CONNECTING"
  shows "sockets (connectWebSocket endpoint failure True s)
           = (sockets s)[c := (sockets s ! c)\<lparr>readyState := CLOSING\<rparr>]
             @ [\<lparr>url = endpoint, readyState = CONNECTING, sent = []\<rparr>]"
    and "wsRef (connectWebSocket endpoint failure True s) = Some (length (sockets s))"
  using assms
  by (simp_all add: connectWebSocket_def ws_readyState_def ws_close_def set_readyState_def)

text \<open>
  C4, as the claim states it, fails while the channel is connecting. The effect has
  just run and socket 0 is connecting; a second \<^verbatim>\<open>connectWebSocket\<close> closes socket 0 and
  constructs socket 1, so two sockets exist.
\<close>

theorem connect_twice_counterexample:
  "ws_readyState (table_effect True (table_init Visible :: int table)) = Some CONNECTING
   \<and> map readyState (sockets (table_connect True (table_effect True (table_init Visible :: int table))))
       = [CLOSING, CONNECTING]"
  by (simp add: table_effect_def table_connect_def table_init_def connectWebSocket_def
      ws_readyState_def ws_close_def set_readyState_def)

text \<open>
  C4, amended. In all three components \<^verbatim>\<open>connectWebSocket\<close> does nothing while the
  current channel is open: it constructs no socket and closes none, so calling it
  again on an open channel leaves the one channel. (The guard of the source,
  CoinMarketTable.tsx:47-52 and 331-336, CurrencyDetailPage.tsx:50-52, tests
  \<^verbatim>\<open>readyState === WebSocket.OPEN\<close> only.) While the current channel is still
  connecting, a further call on a mounted component closes that channel and constructs
  a new one, which becomes the current channel.
\<close>

theorem connect_again:
  "(ws_readyState s = Some OPEN \<longrightarrow> table_connect constructed s = s)
   \<and> (ws_readyState d = Some OPEN \<longrightarrow> detail_connect copy name constructed d = d)
   \<and> (\<not> isUnmounting s \<and> wsRef s = Some c \<and> c < length (sockets s)
        \<and> readyState (sockets s ! c) = CONNECTING \<longrightarrow>
          sockets (table_connect True s)
            = (sockets s)[c := (sockets s ! c)\<lparr>readyState := CLOSING\<rparr>]
              @ [\<lparr>url = ''ws://127.0.0.1:8080'', readyState = CONNECTING, sent = []\<rparr>]
          \<and> wsRef (table_connect True s) = Some (length (sockets s)))
   \<and> (\<not> isUnmounting d \<and> wsRef d = Some k \<and> k < length (sockets d)
        \<and> readyState (sockets d ! k) = CONNECTING \<longrightarrow>
          sockets (detail_connect copy name True d)
            = (sockets d)[k := (sockets d ! k)\<lparr>readyState := CLOSING\<rparr>]
              @ [\<lparr>url = detail_endpoint name, readyState = CONNECTING, sent = []\<rparr>]
          \<and> wsRef (detail_connect copy name True d) = Some (length (sockets d)))"
  unfolding table_connect_def detail_connect_def
  by (simp add: connect_when_open connect_when_connecting)

theorem connect_again_witness:
  "ws_readyState (table_run [WsOpen 0] (table_effect True (table_init Visible :: int table)))
     = Some OPEN
   \<and> table_connect True (table_run [WsOpen 0] (table_effect True (table_init Visible :: int table)))
     = table_run [WsOpen 0] (table_effect True (table_init Visible :: int table))
   \<and> ws_readyState (detail_mount SortedByTime None Visible True :: int detail) = Some CONNECTING
   \<and> map url (sockets (detail_connect SortedByTime ''BTCUSDT'' True
        (detail_mount SortedByTime None Visible True :: int detail)))
     = [''ws://127.0.0.1:8080/currency/BTCUSDT'', ''ws://127.0.0.1:8080/currency/BTCUSDT'']"
  using connect_again
    [where s = "table_run [WsOpen 0] (table_effect True (table_init Visible :: int table))"
       and d = "detail_mount SortedByTime None Visible True :: int detail"
       and constructed = True and copy = SortedByTime and name = "''BTCUSDT''"
       and c = 0 and k = 0]
  by (simp add: table_run_def table_effect_def table_connect_def table_init_def
      connectWebSocket_def ws_readyState_def ws_close_def set_readyState_def socket_in_def
      table_onopen_def ws_send_def detail_mount_def detail_effect_def detail_connect_def
      detail_init_def resolve_symbol_def detail_endpoint_def)

subsection \<open>Retry timers\<close>

lemma schedule_reconnect_fields:
  "timers (schedule_reconnect s) = timers s @ [(nextTimeoutId s, 5000)]"
  "reconnectTimeoutRef (schedule_reconnect s) = Some (nextTimeoutId s)"
  "nextTimeoutId (schedule_reconnect s) = Suc (nextTimeoutId s)"
  by (simp_all add: schedule_reconnect_def setTimeout_def)

lemma table_onclose_unclean:
  "\<not> isUnmounting s \<Longrightarrow> visibilityState s \<noteq> Hidden \<Longrightarrow>
   table_onclose False s = schedule_reconnect (s\<lparr>isConnected := False\<rparr>)"
  by (simp add: table_onclose_def)

lemma onclose_copies_agree: "detail_onclose wasClean s = table_onclose wasClean s"
  by (simp add: detail_onclose_def table_onclose_def)

lemma repeated_unclean_closes:
  assumes "\<not> isUnmounting s" and "visibilityState s \<noteq> Hidden"
  shows "\<not> isUnmounting ((table_onclose False ^^ n) s)
       \<and> visibilityState ((table_onclose False ^^ n) s) \<noteq> Hidden
       \<and> nextTimeoutId ((table_onclose False ^^ n) s) = nextTimeoutId s + n
       \<and> timers ((table_onclose False ^^ n) s)
           = timers s @ map (\<lambda>i. (nextTimeoutId s + i, 5000)) [0..<n]"
proof (induction n)
  case 0
  show ?case using assms by simp
next
  case (Suc n)
  let ?s = "(table_onclose False ^^ n) s"
  have step: "table_onclose False ?s = schedule_reconnect (?s\<lparr>isConnected := False\<rparr>)"
    using Suc by (simp add: table_onclose_unclean)
  show ?case
    using Suc by (simp add: step schedule_reconnect_def setTimeout_def)
qed

text \<open>
  C6, as the claim states it, fails: two retry timers can be pending at once. The tab
  is hidden and shown again while socket 0 is still connecting, so the visibility
  handler replaces socket 0 by socket 1; socket 0 reports its unclean close and timer 1
  is set; the server is unreachable, socket 1 closes uncleanly as well and timer 2 is
  set while timer 1 is still pending.
\<close>

theorem retry_timer_counterexample:
  "timers (table_run
      [VisibilityChange Hidden True, VisibilityChange Visible True,
       WsClose 0 False, WsClose 1 False]
      (table_effect True (table_init Visible :: int table)))
     = [(1, 5000), (2, 5000)]"
  by (simp add: table_run_def table_effect_def table_connect_def table_init_def
      connectWebSocket_def ws_readyState_def ws_close_def set_readyState_def socket_in_def
      handleVisibilityChange_def table_onclose_def schedule_reconnect_def setTimeout_def)

text \<open>
  C6, amended. In all three components a close event that reaches a mounted component
  appends exactly one timeout of 5000 ms to the pending ones when the close was unclean
  and the tab is not hidden, and stores its id in \<open>reconnectTimeoutRef\<close>; otherwise it
  sets no timeout. The delay is the same at every attempt. The handler clears no
  timeout: every timeout that was pending before the close is still pending after it,
  and \<open>n\<close> such closes in a row leave \<open>n\<close> more timeouts pending. The handlers of the
  detail pages do what the table's does.
\<close>

theorem close_schedules_retry:
  "timers (table_onclose wasClean s)
     = timers s @ (if \<not> wasClean \<and> \<not> isUnmounting s \<and> visibilityState s \<noteq> Hidden
                   then [(nextTimeoutId s, 5000)] else [])
   \<and> reconnectTimeoutRef (table_onclose wasClean s)
     = (if \<not> wasClean \<and> \<not> isUnmounting s \<and> visibilityState s \<noteq> Hidden
        then Some (nextTimeoutId s) else reconnectTimeoutRef s)
   \<and> timers (detail_onclose wasClean d)
     = timers d @ (if \<not> wasClean \<and> \<not> isUnmounting d \<and> visibilityState d \<noteq> Hidden
                   then [(nextTimeoutId d, 5000)] else [])
   \<and> reconnectTimeoutRef (detail_onclose wasClean d)
     = (if \<not> wasClean \<and> \<not> isUnmounting d \<and> visibilityState d \<noteq> Hidden
        then Some (nextTimeoutId d) else reconnectTimeoutRef d)
   \<and> detail_onclose wasClean d = table_onclose wasClean d
   \<and> (\<not> isUnmounting s \<and> visibilityState s \<noteq> Hidden \<longrightarrow>
        timers ((table_onclose False ^^ n) s)
          = timers s @ map (\<lambda>i. (nextTimeoutId s + i, 5000)) [0..<n])"
proof -
  have one: "timers (table_onclose wasClean x)
      = timers x @ (if \<not> wasClean \<and> \<not> isUnmounting x \<and> visibilityState x \<noteq> Hidden
                    then [(nextTimeoutId x, 5000)] else [])
    \<and> reconnectTimeoutRef (table_onclose wasClean x)
      = (if \<not> wasClean \<and> \<not> isUnmounting x \<and> visibilityState x \<noteq> Hidden
         then Some (nextTimeoutId x) else reconnectTimeoutRef x)" for x :: "'z component_scheme"
    by (simp add: table_onclose_def schedule_reconnect_fields Let_def)
  show ?thesis
    using one [of s] one [of d] repeated_unclean_closes [of s n]
    by (simp add: onclose_copies_agree)
qed

theorem close_schedules_retry_witness:
  "timers (table_onclose False
      (table_run [WsClose 0 False] (table_effect True (table_init Visible :: int table))))
     = [(1, 5000), (2, 5000)]
   \<and> timers (detail_onclose False (detail_mount AsReceived None Visible True :: int detail))
     = [(1, 5000)]
   \<and> timers (detail_onclose True (detail_mount AsReceived None Visible True :: int detail))
     = []
   \<and> \<not> isUnmounting (table_run [WsClose 0 False]
          (table_effect True (table_init Visible :: int table)))
   \<and> visibilityState (table_run [WsClose 0 False]
          (table_effect True (table_init Visible :: int table))) \<noteq> Hidden
   \<and> timers ((table_onclose False ^^ 3)
        (table_run [WsClose 0 False] (table_effect True (table_init Visible :: int table))))
     = [(1, 5000), (2, 5000), (3, 5000), (4, 5000)]"
  using close_schedules_retry
    [where s = "table_run [WsClose 0 False] (table_effect True (table_init Visible :: int table))"
       and d = "detail_mount AsReceived None Visible True :: int detail" and wasClean = False
       and n = 3]
    close_schedules_retry
    [where s = "table_run [WsClose 0 False] (table_effect True (table_init Visible :: int table))"
       and d = "detail_mount AsReceived None Visible True :: int detail" and wasClean = True
       and n = 0]
  by (simp add: table_run_def table_effect_def table_connect_def table_init_def
      connectWebSocket_def ws_readyState_def set_readyState_def socket_in_def
      table_onclose_def schedule_reconnect_def setTimeout_def
      detail_mount_def detail_effect_def detail_connect_def detail_init_def
      detail_onclose_def numeral_3_eq_3 upt_rec)

subsection \<open>The error event\<close>

text \<open>
  C9, as the claim states it, fails: the error handler moves the shown status to
  disconnected. The table is live after the open event of socket 0 and is not after
  the error event that follows.
\<close>

theorem error_event_counterexample:
  "isConnected (table_run [WsOpen 0] (table_effect True (table_init Visible :: int table)))
   \<and> \<not> isConnected (table_run [WsOpen 0, WsError 0]
          (table_effect True (table_init Visible :: int table)))"
  by (simp add: table_run_def table_effect_def table_connect_def table_init_def
      connectWebSocket_def ws_readyState_def set_readyState_def socket_in_def
      table_onopen_def ws_send_def table_onerror_def onerror_def)

text \<open>
  C9, amended. In all three components the error handler of a mounted component stores
  the component's fixed error text and sets \<open>isConnected\<close> to false, so the status shown
  becomes Disconnected. It does nothing else: it sets and clears no timeout, constructs
  and closes no socket, sends nothing, leaves both refs alone and, on the table, leaves
  the page data alone. A retry is scheduled by the close handler only.
\<close>

theorem error_event_effect:
  assumes "\<not> isUnmounting s" and "\<not> isUnmounting d"
  shows "table_onerror s = s\<lparr>error := Some ''WebSocket error occurred'', isConnected := False\<rparr>
       \<and> timers (table_onerror s) = timers s
       \<and> sockets (table_onerror s) = sockets s
       \<and> wsRef (table_onerror s) = wsRef s
       \<and> reconnectTimeoutRef (table_onerror s) = reconnectTimeoutRef s
       \<and> paginatedData (table_onerror s) = paginatedData s
       \<and> detail_onerror copy d = d\<lparr>error := Some (error_text copy), isConnected := False\<rparr>
       \<and> timers (detail_onerror copy d) = timers d
       \<and> sockets (detail_onerror copy d) = sockets d
       \<and> wsRef (detail_onerror copy d) = wsRef d
       \<and> reconnectTimeoutRef (detail_onerror copy d) = reconnectTimeoutRef d
       \<and> data (detail_onerror copy d) = data d"
  using assms by (simp add: table_onerror_def detail_onerror_def onerror_def)

theorem error_event_effect_witness:
  "\<not> isUnmounting (table_run [WsOpen 0] (table_effect True (table_init Visible :: int table)))
   \<and> \<not> isUnmounting (detail_mount AsReceived None Visible True :: int detail)
   \<and> error (table_onerror
        (table_run [WsOpen 0] (table_effect True (table_init Visible :: int table))))
     = Some ''WebSocket error occurred''
   \<and> timers (table_onerror
        (table_run [WsOpen 0] (table_effect True (table_init Visible :: int table)))) = []
   \<and> error (detail_onerror AsReceived (detail_mount AsReceived None Visible True :: int detail))
     = Some ''WebSocket error occurred''"
  using error_event_effect
    [where s = "table_run [WsOpen 0] (table_effect True (table_init Visible :: int table))"
       and d = "detail_mount AsReceived None Visible True :: int detail" and copy = AsReceived]
  by (simp add: table_run_def table_effect_def table_connect_def table_init_def
      connectWebSocket_def ws_readyState_def set_readyState_def socket_in_def
      table_onopen_def ws_send_def
      detail_mount_def detail_effect_def detail_connect_def detail_init_def)

subsection \<open>After the cleanup\<close>

lemma cleanup_flag: "isUnmounting (cleanup s)" and cleanup_ref: "wsRef (cleanup s) = None"
  by (simp_all add: cleanup_def Let_def split: option.splits)

lemma cleanup_keeps_other_timers:
  "pending t s \<Longrightarrow> reconnectTimeoutRef s \<noteq> Some t \<Longrightarrow> pending t (cleanup s)"
  by (force simp: cleanup_def Let_def pending_def clearTimeout_def split: option.splits)

lemma cleanup_clears_ref_timer:
  "reconnectTimeoutRef s = Some t \<Longrightarrow> \<not> pending t (cleanup s)"
  by (auto simp: cleanup_def Let_def pending_def clearTimeout_def split: option.splits)

lemma connect_unmounting:
  "isUnmounting s \<Longrightarrow> connectWebSocket endpoint failure constructed s = s"
  by (simp add: connectWebSocket_def)

lemma table_step_torn_down:
  assumes "isUnmounting s" and "wsRef s = None"
  shows "torn_down s (table_step e s)"
proof (cases e)
  case (WsOpen c)
  then show ?thesis
    using assms by (simp add: torn_down_def table_onopen_def)
next
  case (WsMessage c m)
  then show ?thesis
    using assms by (simp add: torn_down_def table_onmessage_def)
next
  case (WsError c)
  then show ?thesis
    using assms by (simp add: torn_down_def table_onerror_def onerror_def)
next
  case (WsClose c wasClean)
  then show ?thesis
    using assms by (simp add: torn_down_def table_onclose_def)
next
  case (Timeout t constructed)
  then show ?thesis
    using assms
    by (simp add: torn_down_def table_connect_def connect_unmounting clearTimeout_def)
next
  case (VisibilityChange v constructed)
  then show ?thesis
    using assms
    by (simp add: torn_down_def table_connect_def connect_unmounting
        handleVisibilityChange_def Let_def)
next
  case (PageChange newPage)
  then show ?thesis
    using assms by (simp add: torn_down_def handlePageChange_def ws_readyState_def)
qed

lemma torn_down_trans: "torn_down s s' \<Longrightarrow> torn_down s' s'' \<Longrightarrow> torn_down s s''"
  by (auto simp: torn_down_def)

lemma table_run_torn_down:
  "isUnmounting s \<Longrightarrow> wsRef s = None \<Longrightarrow> torn_down s (table_run es s)"
proof (induction es rule: rev_induct)
  case Nil
  then show ?case by (simp add: table_run_def torn_down_def)
next
  case (snoc e es)
  then have before: "torn_down s (table_run es s)" by simp
  then have "isUnmounting (table_run es s)" and "wsRef (table_run es s) = None"
    by (simp_all add: torn_down_def)
  then have "torn_down (table_run es s) (table_step e (table_run es s))"
    by (rule table_step_torn_down)
  with before have "torn_down s (table_step e (table_run es s))"
    by (rule torn_down_trans)
  then show ?case by (simp add: table_run_def)
qed

lemma table_run_pending: "isUnmounting s \<Longrightarrow> wsRef s = None \<Longrightarrow>
  pending t (table_run es s) \<Longrightarrow> pending t s"
  using table_run_torn_down [of s es] by (auto simp: torn_down_def pending_def)

text \<open>
  C7, as the claim states it, fails: a retry timer that is pending when the cleanup
  runs is not always cancelled. On the run in which the tab is hidden and shown again
  while socket 0 is connecting and both sockets close uncleanly, timers 1 and 2 are
  pending and the ref holds 2; the cleanup clears timer 2, and timer 1 is still
  pending afterwards.
\<close>

theorem cleanup_timer_counterexample:
  "pending 1 (table_run
      [VisibilityChange Hidden True, VisibilityChange Visible True,
       WsClose 0 False, WsClose 1 False]
      (table_effect True (table_init Visible :: int table)))
   \<and> pending 1 (cleanup (table_run
      [VisibilityChange Hidden True, VisibilityChange Visible True,
       WsClose 0 False, WsClose 1 False]
      (table_effect True (table_init Visible :: int table))))"
  by (simp add: table_run_def table_effect_def table_connect_def table_init_def
      connectWebSocket_def ws_readyState_def ws_close_def set_readyState_def socket_in_def
      handleVisibilityChange_def table_onclose_def schedule_reconnect_def setTimeout_def
      cleanup_def clearTimeout_def pending_def)

text \<open>
  C7, amended. The table's cleanup cancels the one timer whose id \<open>reconnectTimeoutRef\<close>
  holds, which never becomes pending again; every other pending timer stays pending.
  Once the cleanup has run the component does nothing any more, whatever happens
  afterwards (a timer that runs out, cancelled or not, an open, message, error or close
  event of any socket, a visibility change, a page change): no socket is constructed,
  nothing is sent, no timer is set, the React state does not change, and
  \<^verbatim>\<open>connectWebSocket\<close> itself, called in any such later state, returns at once. The later
  events are the callbacks of this run of the table's effect, which React does not run
  again after the view is torn down.
\<close>

theorem no_connect_after_cleanup:
  "torn_down (cleanup s) (table_run es (cleanup s))
   \<and> (\<forall>t. reconnectTimeoutRef s = Some t \<longrightarrow> \<not> pending t (table_run es (cleanup s)))
   \<and> (\<forall>t. pending t s \<and> reconnectTimeoutRef s \<noteq> Some t \<longrightarrow> pending t (cleanup s))
   \<and> table_connect constructed (table_run es (cleanup s)) = table_run es (cleanup s)"
proof -
  have quiet: "torn_down (cleanup s) (table_run es (cleanup s))"
    by (rule table_run_torn_down [OF cleanup_flag cleanup_ref])
  have timer: "\<forall>t. reconnectTimeoutRef s = Some t \<longrightarrow> \<not> pending t (table_run es (cleanup s))"
    using table_run_pending [OF cleanup_flag cleanup_ref] cleanup_clears_ref_timer by blast
  have others: "\<forall>t. pending t s \<and> reconnectTimeoutRef s \<noteq> Some t \<longrightarrow> pending t (cleanup s)"
    using cleanup_keeps_other_timers by blast
  have "isUnmounting (table_run es (cleanup s))"
    using quiet by (simp add: torn_down_def)
  then have "table_connect constructed (table_run es (cleanup s)) = table_run es (cleanup s)"
    by (simp add: table_connect_def connect_unmounting)
  with quiet timer others show ?thesis by simp
qed

theorem no_connect_after_cleanup_witness:
  "reconnectTimeoutRef
      (table_run [VisibilityChange Hidden True, VisibilityChange Visible True,
                  WsClose 0 False, WsClose 1 False]
         (table_effect True (table_init Visible :: int table))) = Some 2
   \<and> pending 2 (table_run [VisibilityChange Hidden True, VisibilityChange Visible True,
                  WsClose 0 False, WsClose 1 False]
         (table_effect True (table_init Visible :: int table)))
   \<and> \<not> pending 2 (table_run [Timeout 1 True, VisibilityChange Visible True, PageChange 2]
        (cleanup (table_run [VisibilityChange Hidden True, VisibilityChange Visible True,
                  WsClose 0 False, WsClose 1 False]
           (table_effect True (table_init Visible :: int table)))))
   \<and> pending 1 (cleanup (table_run [VisibilityChange Hidden True, VisibilityChange Visible True,
                  WsClose 0 False, WsClose 1 False]
           (table_effect True (table_init Visible :: int table))))
   \<and> length (sockets (table_run [Timeout 1 True, VisibilityChange Visible True, PageChange 2]
        (cleanup (table_run [VisibilityChange Hidden True, VisibilityChange Visible True,
                  WsClose 0 False, WsClose 1 False]
           (table_effect True (table_init Visible :: int table)))))) = 2"
  using no_connect_after_cleanup
    [where s = "table_run [VisibilityChange Hidden True, VisibilityChange Visible True,
                  WsClose 0 False, WsClose 1 False]
         (table_effect True (table_init Visible :: int table))"
       and es = "[Timeout 1 True, VisibilityChange Visible True, PageChange 2]"
       and constructed = True]
  by (simp add: table_run_def table_effect_def table_connect_def table_init_def
      connectWebSocket_def ws_readyState_def ws_close_def set_readyState_def socket_in_def
      table_onclose_def schedule_reconnect_def setTimeout_def pending_def cleanup_def
      clearTimeout_def handleVisibilityChange_def handlePageChange_def pagination_shown_def)

subsection \<open>A close while the tab is hidden\<close>

text \<open>
  C8. On a mounted table whose tab is hidden, no close event sets a timeout. When the
  socket that closed uncleanly is the current one and the tab becomes visible next,
  the visibility handler calls \<^verbatim>\<open>connectWebSocket\<close> once, at once: exactly one socket is
  constructed, it is connecting and becomes the current one, and still no timeout is
  set. (Should the constructor throw, no socket is constructed and the failure text is
  shown.)
\<close>

theorem hidden_close_then_visible:
  assumes "\<not> isUnmounting s" and "listening s" and "visibilityState s = Hidden"
    and "wsRef s = Some c" and "socket_in c [CONNECTING, OPEN, CLOSING] s"
  shows "timers (table_step (WsClose k wasClean) s) = timers s
       \<and> timers (table_step (WsClose c False) s) = timers s
       \<and> sockets (table_step (VisibilityChange Visible True) (table_step (WsClose c False) s))
           = sockets (table_step (WsClose c False) s)
             @ [\<lparr>url = ''ws://127.0.0.1:8080'', readyState = CONNECTING, sent = []\<rparr>]
       \<and> wsRef (table_step (VisibilityChange Visible True) (table_step (WsClose c False) s))
           = Some (length (sockets s))
       \<and> timers (table_step (VisibilityChange Visible True) (table_step (WsClose c False) s))
           = timers s
       \<and> sockets (table_step (VisibilityChange Visible False) (table_step (WsClose c False) s))
           = sockets (table_step (WsClose c False) s)
       \<and> error (table_step (VisibilityChange Visible False) (table_step (WsClose c False) s))
           = Some ''Failed to connect to WebSocket''"
proof -
  let ?cl = "(set_readyState c CLOSED s)\<lparr>isConnected := False\<rparr>"
  have any: "timers (table_step (WsClose k wasClean) s) = timers s"
    using assms(3) by (simp add: table_onclose_def)
  have cur: "timers (table_step (WsClose c False) s) = timers s"
    using assms(3) by (simp add: table_onclose_def)
  have closed: "table_step (WsClose c False) s = ?cl"
    using assms by (simp add: table_onclose_def)
  have c: "c < length (sockets s)"
    using assms(5) by (simp add: socket_in_def)
  have state: "ws_readyState ?cl = Some CLOSED"
    using assms(4) c by (simp add: ws_readyState_def set_readyState_def)
  have facts: "\<not> isUnmounting ?cl" "listening ?cl" "wsRef ?cl = Some c"
    "timers ?cl = timers s" "length (sockets ?cl) = length (sockets s)"
    "readyState (sockets ?cl ! c) = CLOSED"
    using assms c by (simp_all add: set_readyState_def)
  have shown: "table_step (VisibilityChange Visible constructed) ?cl
      = table_connect constructed (?cl\<lparr>visibilityState := Visible\<rparr>)" for constructed
    using facts(2) by (simp add: handleVisibilityChange_def Let_def)
  have ok: "table_connect True (?cl\<lparr>visibilityState := Visible\<rparr>)
      = ?cl\<lparr>visibilityState := Visible,
             sockets := sockets ?cl
               @ [\<lparr>url = ''ws://127.0.0.1:8080'', readyState = CONNECTING, sent = []\<rparr>],
             wsRef := Some (length (sockets ?cl))\<rparr>"
    using facts c
    by (simp add: table_connect_def connectWebSocket_def ws_readyState_def ws_close_def)
  have thrown: "table_connect False (?cl\<lparr>visibilityState := Visible\<rparr>)
      = ?cl\<lparr>visibilityState := Visible, wsRef := None,
             error := Some ''Failed to connect to WebSocket'', isConnected := False\<rparr>"
    using facts c
    by (simp add: table_connect_def connectWebSocket_def ws_readyState_def ws_close_def)
  have after_ok: "table_step (VisibilityChange Visible True) (table_step (WsClose c False) s)
      = ?cl\<lparr>visibilityState := Visible,
             sockets := sockets ?cl
               @ [\<lparr>url = ''ws://127.0.0.1:8080'', readyState = CONNECTING, sent = []\<rparr>],
             wsRef := Some (length (sockets ?cl))\<rparr>"
    unfolding closed shown ok ..
  have after_thrown: "table_step (VisibilityChange Visible False) (table_step (WsClose c False) s)
      = ?cl\<lparr>visibilityState := Visible, wsRef := None,
             error := Some ''Failed to connect to WebSocket'', isConnected := False\<rparr>"
    unfolding closed shown thrown ..
  show ?thesis
    unfolding after_ok after_thrown
    using any cur by (simp add: closed del: table_step.simps)
qed

theorem hidden_close_then_visible_witness:
  "\<not> isUnmounting (table_run [VisibilityChange Hidden True]
        (table_effect True (table_init Visible :: int table)))
   \<and> socket_in 0 [CONNECTING, OPEN, CLOSING]
        (table_run [VisibilityChange Hidden True]
           (table_effect True (table_init Visible :: int table)))
   \<and> timers (table_run [VisibilityChange Hidden True, WsClose 0 False]
        (table_effect True (table_init Visible :: int table))) = []
   \<and> map readyState (sockets
        (table_run [VisibilityChange Hidden True, WsClose 0 False, VisibilityChange Visible True]
           (table_effect True (table_init Visible :: int table)))) = [CLOSED, CONNECTING]"
  using hidden_close_then_visible
    [where s = "table_run [VisibilityChange Hidden True]
                  (table_effect True (table_init Visible :: int table))"
       and c = 0 and k = 0 and wasClean = False]
  by (simp add: table_run_def table_effect_def table_connect_def table_init_def
      connectWebSocket_def ws_readyState_def ws_close_def set_readyState_def socket_in_def
      table_onclose_def handleVisibilityChange_def)

subsection \<open>The default symbol\<close>

text \<open>
  C10. Without a route parameter the symbol of the detail page is BTCUSDT, and the
  socket that the first run of the effect constructs, in either copy of the page, has
  the URL ws://127.0.0.1:8080/currency/BTCUSDT.
\<close>

theorem default_symbol_endpoint:
  "resolve_symbol None = ''BTCUSDT''
   \<and> detail_endpoint (resolve_symbol None) = ''ws://127.0.0.1:8080/currency/BTCUSDT''
   \<and> map url (sockets (detail_mount copy None v True))
       = [''ws://127.0.0.1:8080/currency/BTCUSDT'']"
  by (simp add: resolve_symbol_def detail_endpoint_def detail_mount_def detail_effect_def
      detail_connect_def detail_init_def connectWebSocket_def ws_readyState_def)

subsection \<open>The request sent when a channel opens\<close>

lemma connect_effect_data:
  "effectPaginatedData (connectWebSocket endpoint failure constructed s) = effectPaginatedData s"
  by (simp add: connectWebSocket_def Let_def split: option.splits)

lemma table_step_effect_data: "effectPaginatedData (table_step e s) = effectPaginatedData s"
proof (cases e)
  case (WsOpen c)
  then show ?thesis by (simp add: table_onopen_def ws_send_def)
next
  case (WsMessage c m)
  then show ?thesis by (simp add: table_onmessage_def split: option.splits)
next
  case (WsError c)
  then show ?thesis by (simp add: table_onerror_def onerror_def)
next
  case (WsClose c wasClean)
  then show ?thesis
    by (simp add: table_onclose_def schedule_reconnect_def setTimeout_def Let_def)
next
  case (Timeout t constructed)
  then show ?thesis by (simp add: table_connect_def connect_effect_data)
next
  case (VisibilityChange v constructed)
  then show ?thesis
    by (simp add: table_connect_def connect_effect_data handleVisibilityChange_def Let_def)
next
  case (PageChange newPage)
  then show ?thesis by (simp add: handlePageChange_def ws_send_def split: option.splits)
qed

lemma table_run_effect_data: "effectPaginatedData (table_run es s) = effectPaginatedData s"
  unfolding table_run_def
  by (induction es arbitrary: s) (simp_all add: table_step_effect_data)

text \<open>
  Every open event that reaches a mounted table sends exactly one request, on the
  socket that opened, and the request carries the page and the page size of the
  \<^verbatim>\<open>paginatedData\<close> that the effect's closure holds.
\<close>

lemma open_sends_one_request:
  assumes "\<not> isUnmounting s" and "socket_in c [CONNECTING] s"
  shows "map sent (sockets (table_step (WsOpen c) s))
           = (map sent (sockets s))
               [c := sent (sockets s ! c)
                     @ [PageRequest (page (effectPaginatedData s))
                                    (per_page (effectPaginatedData s))]]"
  using assms
  by (simp add: table_onopen_def ws_send_def set_readyState_def socket_in_def map_update)

text \<open>
  That closure is the one of the first render: in every run of the table from its
  mount, whatever the user and the server have done, it holds page 1 and page size 30.
\<close>

lemma effect_data_after_mount:
  "page (effectPaginatedData (table_run es (table_effect constructed (table_init v)))) = 1
   \<and> per_page (effectPaginatedData (table_run es (table_effect constructed (table_init v)))) = 30"
  by (simp add: table_run_effect_data table_effect_def table_connect_def connect_effect_data
      table_init_def)

text \<open>
  C5 holds in its first half (one request at every open, see \<open>open_sends_one_request\<close>)
  and fails in the second on the code. The table opens and requests page 1; the
  server's page 1 of 120 rows arrives and the Pagination control appears; the user goes
  to page 3, the request for page 3 with page size 30 is sent and the server's page 3
  arrives; the channel closes uncleanly, the retry timer runs out and socket 1 opens.
  The request sent on socket 1 is for page 1, not for the page 3 the user asked for
  last and the table shows.
\<close>

theorem reopen_requests_first_page:
  "pagination_shown (paginatedData (table_run
      [WsOpen 0,
       WsMessage 0 (Some \<lparr>PaginatedResponse.data =
                             [\<lparr>TickerData.symbol = ''BTCUSDT'', price = 97000, volume = 5\<rparr>,
                              \<lparr>TickerData.symbol = ''ETHUSDT'', price = 3300, volume = 8\<rparr>],
                           total = 120, page = 1, per_page = 30\<rparr>)]
      (table_effect True (table_init Visible :: int table))))
   \<and> map sent (sockets (table_run
      [WsOpen 0,
       WsMessage 0 (Some \<lparr>PaginatedResponse.data =
                             [\<lparr>TickerData.symbol = ''BTCUSDT'', price = 97000, volume = 5\<rparr>,
                              \<lparr>TickerData.symbol = ''ETHUSDT'', price = 3300, volume = 8\<rparr>],
                           total = 120, page = 1, per_page = 30\<rparr>),
       PageChange 3,
       WsMessage 0 (Some \<lparr>PaginatedResponse.data =
                             [\<lparr>TickerData.symbol = ''XRPUSDT'', price = 2, volume = 9\<rparr>],
                           total = 120, page = 3, per_page = 30\<rparr>),
       WsClose 0 False, Timeout 1 True, WsOpen 1]
      (table_effect True (table_init Visible :: int table))))
     = [[PageRequest 1 30, PageRequest 3 30], [PageRequest 1 30]]
   \<and> page (paginatedData (table_run
      [WsOpen 0,
       WsMessage 0 (Some \<lparr>PaginatedResponse.data =
                             [\<lparr>TickerData.symbol = ''BTCUSDT'', price = 97000, volume = 5\<rparr>,
                              \<lparr>TickerData.symbol = ''ETHUSDT'', price = 3300, volume = 8\<rparr>],
                           total = 120, page = 1, per_page = 30\<rparr>),
       PageChange 3,
       WsMessage 0 (Some \<lparr>PaginatedResponse.data =
                             [\<lparr>TickerData.symbol = ''XRPUSDT'', price = 2, volume = 9\<rparr>],
                           total = 120, page = 3, per_page = 30\<rparr>),
       WsClose 0 False, Timeout 1 True, WsOpen 1]
      (table_effect True (table_init Visible :: int table)))) = 3"
  by (simp add: table_run_def table_effect_def table_connect_def table_init_def
      connectWebSocket_def ws_readyState_def ws_close_def set_readyState_def socket_in_def
      table_onopen_def ws_send_def handlePageChange_def table_onmessage_def
      table_onclose_def schedule_reconnect_def setTimeout_def pending_def clearTimeout_def
      pagination_shown_def)

end
